theory Spec2Isabelle
  imports Complex_Main
begin

section \<open>The physics engine of the solar-to-stack digital twin (app.py)\<close>

text \<open>
  The source computes with IEEE double precision numbers. Finite values are modelled as
  exact reals (rounding is not modelled). The two ways in which the source leaves the
  finite numbers are modelled explicitly: a division of two Python floats by zero raises
  \<^verbatim>\<open>ZeroDivisionError\<close>, and a division of a numpy array by zero raises nothing and
  stores an infinity or a NaN in the array.
\<close>

subsection \<open>Values\<close>

datatype py_error = ZeroDivisionError

text \<open>An element of a numpy float array: a finite number, an infinity or NaN.\<close>

datatype npfloat = Fin real | PosInf | NegInf | NaN

text \<open>The tuple returned by \<^verbatim>\<open>simulate_system\<close>, one field for each returned variable.\<close>

record sim_result =
  i_range :: "real list"
  v_total :: "real list"
  hours :: "real list"
  solar_profile :: "real list"
  h2_grams_hr :: "npfloat list"

subsection \<open>numpy operations\<close>

text \<open>
  \<^verbatim>\<open>np.linspace(start, stop, num)\<close> with the end point included: the step is
  \<^verbatim>\<open>(stop - start) / (num - 1)\<close> and element \<open>k\<close> is \<^verbatim>\<open>k * step + start\<close>. The source
  calls it with \<open>num = 50\<close> and \<open>num = 96\<close> only.
\<close>

definition linspace :: "real \<Rightarrow> real \<Rightarrow> nat \<Rightarrow> real list" where
  "linspace start stop num =
     map (\<lambda>k. real k * ((stop - start) / real (num - 1)) + start) [0..<num]"

text \<open>
  Array divided by a scalar (\<^verbatim>\<open>np.true_divide\<close>): with a zero divisor the element becomes
  NaN when it is zero and an infinity of its sign otherwise; nothing is raised. The divisor
  zero of the source is \<^verbatim>\<open>1.85 * 0\<close>, positive zero.
\<close>

fun np_true_divide :: "npfloat \<Rightarrow> real \<Rightarrow> npfloat" where
  "np_true_divide (Fin x) c =
     (if c \<noteq> 0 then Fin (x / c)
      else if x = 0 then NaN
      else if 0 < x then PosInf else NegInf)"
| "np_true_divide PosInf c = (if 0 \<le> c then PosInf else NegInf)"
| "np_true_divide NegInf c = (if 0 \<le> c then NegInf else PosInf)"
| "np_true_divide NaN c = NaN"

text \<open>Array multiplied by a scalar (\<^verbatim>\<open>np.multiply\<close>).\<close>

fun np_multiply :: "npfloat \<Rightarrow> real \<Rightarrow> npfloat" where
  "np_multiply (Fin x) c = Fin (x * c)"
| "np_multiply PosInf c = (if 0 < c then PosInf else if c < 0 then NegInf else NaN)"
| "np_multiply NegInf c = (if 0 < c then NegInf else if c < 0 then PosInf else NaN)"
| "np_multiply NaN c = NaN"

subsection \<open>The local variables of \<^verbatim>\<open>simulate_system\<close>\<close>

definition F :: real where
  "F = 96485"

definition R :: real where
  "R = 8.314"

definition kelvin :: "real \<Rightarrow> real" where
  \<comment> \<open>\<^verbatim>\<open>T = T_c + 273.15\<close>\<close>
  "kelvin T_c = T_c + 273.15"

definition V_rev :: "real \<Rightarrow> real" where
  \<comment> \<open>\<^verbatim>\<open>V_rev = 1.229 - 0.0009 * (T - 298.15)\<close>\<close>
  "V_rev T = 1.229 - 0.0009 * (T - 298.15)"

definition eta_act :: "real \<Rightarrow> real \<Rightarrow> real" where
  \<comment> \<open>one element of \<^verbatim>\<open>(R * T / (0.5 * 2 * F)) * np.log(i_range / 1e-3)\<close>\<close>
  "eta_act T i = (R * T / (0.5 * 2 * F)) * ln (i / 0.001)"

definition conductivity :: "real \<Rightarrow> real" where
  \<comment> \<open>\<^verbatim>\<open>conductivity = (0.005139 * (T/303) - 0.00326) * 10\<close>\<close>
  "conductivity T = (0.005139 * (T / 303) - 0.00326) * 10"

definition eta_ohm :: "real \<Rightarrow> real \<Rightarrow> real" where
  \<comment> \<open>one element of \<^verbatim>\<open>i_range * r\<close>, where \<open>r\<close> is the quotient \<^verbatim>\<open>thickness / conductivity\<close>\<close>
  "eta_ohm r i = i * r"

definition v_at :: "real \<Rightarrow> real \<Rightarrow> real \<Rightarrow> real" where
  \<comment> \<open>one element of \<^verbatim>\<open>V_rev + eta_act + eta_ohm\<close>\<close>
  "v_at T r i = V_rev T + eta_act T i + eta_ohm r i"

definition solar_at :: "real \<Rightarrow> real \<Rightarrow> real" where
  \<comment> \<open>one element of \<^verbatim>\<open>np.maximum(0, solar_kw * np.sin(np.pi * (hours - 6) / 12))\<close>\<close>
  "solar_at solar_kw h = max 0 (solar_kw * sin (pi * (h - 6) / 12))"

definition v_op :: real where
  "v_op = 1.85"

definition total_current_at :: "int \<Rightarrow> real \<Rightarrow> npfloat" where
  \<comment> \<open>one element of \<^verbatim>\<open>(solar_profile * 1000) / (v_op * cells)\<close>\<close>
  "total_current_at cells p = np_true_divide (Fin (p * 1000)) (v_op * real_of_int cells)"

definition h2_at :: "npfloat \<Rightarrow> npfloat" where
  \<comment> \<open>one element of \<^verbatim>\<open>(total_current * 2.016) / (2 * 96485) * 3600\<close>\<close>
  "h2_at c = np_multiply (np_true_divide (np_multiply c 2.016) (2 * 96485)) 3600"

subsection \<open>\<^verbatim>\<open>simulate_system\<close>\<close>

text \<open>
  The only statement that can raise is the scalar quotient \<^verbatim>\<open>thickness / conductivity\<close>,
  a division of two Python floats. Everything after it works on arrays.
\<close>

definition simulate_system :: "real \<Rightarrow> real \<Rightarrow> real \<Rightarrow> int \<Rightarrow> py_error + sim_result" where
  "simulate_system T_c thickness solar_kw cells =
     (let T = kelvin T_c;
          is = linspace 0.01 2.0 50;
          sigma = conductivity T
      in if sigma = 0 then Inl ZeroDivisionError
         else
           let r = thickness / sigma;
               v = map (v_at T r) is;
               hs = linspace 0 24 96;
               sp = map (solar_at solar_kw) hs;
               tc = map (total_current_at cells) sp;
               h2 = map h2_at tc
           in Inr \<lparr>i_range = is, v_total = v, hours = hs, solar_profile = sp,
                   h2_grams_hr = h2\<rparr>)"

text \<open>
  The inputs the specification calls valid: a temperature between 0 and 100 degrees
  Celsius, a positive membrane thickness, a solar capacity that is not negative and at
  least one cell.
\<close>

definition valid_inputs :: "real \<Rightarrow> real \<Rightarrow> real \<Rightarrow> int \<Rightarrow> bool" where
  "valid_inputs T_c thickness solar_kw cells \<longleftrightarrow>
     0 \<le> T_c \<and> T_c \<le> 100 \<and> 0 < thickness \<and> 0 \<le> solar_kw \<and> 1 \<le> cells"

section \<open>Basic facts\<close>

lemma length_linspace: "length (linspace a b n) = n"
  by (simp add: linspace_def)

lemma nth_linspace:
  "k < n \<Longrightarrow> linspace a b n ! k = real k * ((b - a) / real (n - 1)) + a"
  by (simp add: linspace_def)

lemma conductivity_pos: "0 \<le> T_c \<Longrightarrow> 0 < conductivity (kelvin T_c)"
  by (simp add: conductivity_def kelvin_def)

lemma simulate_system_Inr:
  assumes "conductivity (kelvin T_c) \<noteq> 0"
  shows "simulate_system T_c thickness solar_kw cells =
     Inr \<lparr>i_range = linspace 0.01 2.0 50,
          v_total = map (v_at (kelvin T_c) (thickness / conductivity (kelvin T_c)))
                      (linspace 0.01 2.0 50),
          hours = linspace 0 24 96,
          solar_profile = map (solar_at solar_kw) (linspace 0 24 96),
          h2_grams_hr = map (\<lambda>h. h2_at (total_current_at cells (solar_at solar_kw h)))
                          (linspace 0 24 96)\<rparr>"
  using assms by (simp add: simulate_system_def Let_def comp_def)

lemma valid_inputs_conductivity:
  "valid_inputs T_c thickness solar_kw cells \<Longrightarrow> conductivity (kelvin T_c) \<noteq> 0"
  using conductivity_pos [of T_c] by (simp add: valid_inputs_def)

subsection \<open>Evenly spaced grids\<close>

lemma linspace_strict_sorted:
  assumes "a < b" and "2 \<le> n"
  shows "sorted_wrt (<) (linspace a b n)"
proof -
  have step: "0 < (b - a) / real (n - 1)"
    using assms by simp
  have "linspace a b n ! i < linspace a b n ! j" if "i < j" and "j < n" for i j
  proof -
    have "real i * ((b - a) / real (n - 1)) < real j * ((b - a) / real (n - 1))"
      using that(1) step by (intro mult_strict_right_mono) simp_all
    with that show ?thesis
      by (simp add: nth_linspace)
  qed
  then show ?thesis
    by (simp add: sorted_wrt_iff_nth_less length_linspace)
qed

lemma linspace_first: "0 < n \<Longrightarrow> linspace a b n ! 0 = a"
  by (simp add: nth_linspace)

lemma linspace_last: "2 \<le> n \<Longrightarrow> linspace a b n ! (n - 1) = b"
  by (simp add: nth_linspace)

lemma linspace_bounds:
  assumes "a \<le> b" and "2 \<le> n" and "k < n"
  shows "a \<le> linspace a b n ! k \<and> linspace a b n ! k \<le> b"
proof -
  have "real k \<le> real (n - 1)"
    using assms(3) by simp
  then have "real k * ((b - a) / real (n - 1)) \<le> real (n - 1) * ((b - a) / real (n - 1))"
    using assms(1) by (intro mult_right_mono) simp_all
  also have "\<dots> = b - a"
    using assms(2) by simp
  finally have "real k * ((b - a) / real (n - 1)) \<le> b - a" .
  moreover have "0 \<le> real k * ((b - a) / real (n - 1))"
    using assms(1) by simp
  ultimately show ?thesis
    using assms(3) by (simp add: nth_linspace)
qed

lemma linspace_set_bounds:
  assumes "a \<le> b" and "2 \<le> n" and "x \<in> set (linspace a b n)"
  shows "a \<le> x \<and> x \<le> b"
proof -
  from assms(3) obtain k where "k < n" and "x = linspace a b n ! k"
    by (auto simp: in_set_conv_nth length_linspace)
  with linspace_bounds [OF assms(1,2)] show ?thesis
    by simp
qed

lemma linspace_step:
  assumes "Suc k < n"
  shows "linspace a b n ! Suc k - linspace a b n ! k = (b - a) / real (n - 1)"
proof -
  have "real (Suc k) * s + a - (real k * s + a) = s" for s :: real
    by (simp add: distrib_right)
  with assms show ?thesis
    by (simp only: nth_linspace Suc_lessD)
qed

section \<open>The current-density grid\<close>

text \<open>
  Claim C9. For all valid inputs the call returns, and the current-density grid it returns
  has exactly 50 points, is strictly increasing and lies in the interval from 0.01 to 2.0.
  The grid is \<open>linspace 0.01 2.0 50\<close>, an expression that mentions none of the four
  inputs, so it is the same list whatever their values.
\<close>

theorem i_range_grid:
  assumes "valid_inputs T_c thickness solar_kw cells"
  shows "\<exists>r. simulate_system T_c thickness solar_kw cells = Inr r \<and>
           i_range r = linspace 0.01 2.0 50 \<and>
           length (i_range r) = 50 \<and>
           sorted_wrt (<) (i_range r) \<and>
           (\<forall>x \<in> set (i_range r). 0.01 \<le> x \<and> x \<le> 2.0)"
proof -
  have "conductivity (kelvin T_c) \<noteq> 0"
    using assms conductivity_pos [of T_c] by (simp add: valid_inputs_def)
  note run = simulate_system_Inr [OF this, of thickness solar_kw cells]
  have "sorted_wrt (<) (linspace 0.01 2.0 50)"
    by (rule linspace_strict_sorted) simp_all
  moreover have "\<forall>x \<in> set (linspace 0.01 2.0 50). 0.01 \<le> x \<and> x \<le> 2.0"
    using linspace_set_bounds [of "0.01" "2.0" 50] by simp
  ultimately show ?thesis
    unfolding run by (simp add: length_linspace)
qed

theorem i_range_grid_witness:
  "valid_inputs 60 0.0125 100 50 \<and>
   (\<exists>r. simulate_system 60 0.0125 100 50 = Inr r \<and>
         i_range r = linspace 0.01 2.0 50 \<and>
         length (i_range r) = 50 \<and>
         sorted_wrt (<) (i_range r) \<and>
         (\<forall>x \<in> set (i_range r). 0.01 \<le> x \<and> x \<le> 2.0))"
proof -
  have v: "valid_inputs 60 0.0125 100 50"
    by (simp add: valid_inputs_def)
  from v i_range_grid [OF v] show ?thesis
    by simp
qed

section \<open>The polarization curve\<close>

lemma tafel_slope_pos: "0 < T \<Longrightarrow> 0 < R * T / (0.5 * 2 * F)"
  by (simp add: R_def F_def)

lemma eta_act_strict_mono:
  assumes "0 < T" and "0 < i" and "i < j"
  shows "eta_act T i < eta_act T j"
proof -
  have "ln (i / 0.001) < ln (j / 0.001)"
    using assms(2,3) by (subst ln_less_cancel_iff) (simp_all add: divide_strict_right_mono)
  then show ?thesis
    unfolding eta_act_def using tafel_slope_pos [OF assms(1)]
    by (rule mult_strict_left_mono)
qed

lemma eta_ohm_strict_mono: "0 < r \<Longrightarrow> i < j \<Longrightarrow> eta_ohm r i < eta_ohm r j"
  by (simp add: eta_ohm_def)

lemma v_at_strict_mono:
  assumes "0 < T" and "0 < r" and "0 < i" and "i < j"
  shows "v_at T r i < v_at T r j"
  using eta_act_strict_mono [OF assms(1,3,4)] eta_ohm_strict_mono [OF assms(2,4)]
  by (simp add: v_at_def)

lemma kelvin_pos: "0 \<le> T_c \<Longrightarrow> 0 < kelvin T_c"
  by (simp add: kelvin_def)

lemma v_total_strict_sorted:
  assumes "0 < T" and "0 < r"
  shows "sorted_wrt (<) (map (v_at T r) (linspace 0.01 2.0 50))"
proof -
  have "v_at T r (linspace 0.01 2.0 50 ! i) < v_at T r (linspace 0.01 2.0 50 ! j)"
    if "i < j" and "j < 50" for i j
  proof -
    have "linspace 0.01 2.0 50 ! i < linspace 0.01 2.0 50 ! j"
      using linspace_strict_sorted [of "0.01" "2.0" 50] that
      by (simp add: sorted_wrt_iff_nth_less length_linspace)
    moreover have "0 < linspace 0.01 2.0 50 ! i"
      using linspace_bounds [of "0.01" "2.0" 50 i] that by simp
    ultimately show ?thesis
      using assms by (intro v_at_strict_mono)
  qed
  then show ?thesis
    by (simp add: sorted_wrt_iff_nth_less length_linspace)
qed

text \<open>
  Claim C1. For every temperature between 0 and 100 degrees Celsius and every positive
  membrane thickness the call returns, and the voltages it returns are monotonically
  non-decreasing along the 50 points of the current-density grid. Each voltage is the
  reversible voltage, which does not depend on the current density, plus the two
  overpotentials; the conductivity is positive, and both overpotentials are strictly
  increasing in the current density, over all positive current densities.
\<close>

theorem voltage_monotone:
  assumes "0 \<le> T_c" and "T_c \<le> 100" and "0 < thickness"
  shows "\<exists>r. simulate_system T_c thickness solar_kw cells = Inr r \<and>
           length (v_total r) = 50 \<and>
           sorted (v_total r) \<and>
           v_total r = map (\<lambda>i. V_rev (kelvin T_c) + eta_act (kelvin T_c) i +
                              eta_ohm (thickness / conductivity (kelvin T_c)) i) (i_range r) \<and>
           0 < conductivity (kelvin T_c) \<and>
           (\<forall>i j. 0 < i \<and> i < j \<longrightarrow>
              eta_act (kelvin T_c) i < eta_act (kelvin T_c) j \<and>
              eta_ohm (thickness / conductivity (kelvin T_c)) i
                < eta_ohm (thickness / conductivity (kelvin T_c)) j)"
proof -
  have c: "0 < conductivity (kelvin T_c)"
    by (rule conductivity_pos [OF assms(1)])
  then have r: "0 < thickness / conductivity (kelvin T_c)"
    using assms(3) by simp
  have T: "0 < kelvin T_c"
    by (rule kelvin_pos [OF assms(1)])
  from c have "conductivity (kelvin T_c) \<noteq> 0"
    by simp
  note run = simulate_system_Inr [OF this, of thickness solar_kw cells]
  have "sorted_wrt (<) (map (v_at (kelvin T_c) (thickness / conductivity (kelvin T_c)))
      (linspace 0.01 2.0 50))"
    by (rule v_total_strict_sorted [OF T r])
  then have s: "sorted (map (v_at (kelvin T_c) (thickness / conductivity (kelvin T_c)))
      (linspace 0.01 2.0 50))"
    by (rule strict_sorted_imp_sorted)
  have m: "\<forall>i j. 0 < i \<and> i < j \<longrightarrow>
      eta_act (kelvin T_c) i < eta_act (kelvin T_c) j \<and>
      eta_ohm (thickness / conductivity (kelvin T_c)) i
        < eta_ohm (thickness / conductivity (kelvin T_c)) j"
    using eta_act_strict_mono [OF T] eta_ohm_strict_mono [OF r] by blast
  have v: "v_at (kelvin T_c) (thickness / conductivity (kelvin T_c)) =
      (\<lambda>i. V_rev (kelvin T_c) + eta_act (kelvin T_c) i +
         eta_ohm (thickness / conductivity (kelvin T_c)) i)"
    by (rule ext) (simp add: v_at_def)
  show ?thesis
    unfolding run using s c m by (simp add: length_linspace v)
qed

theorem voltage_monotone_witness:
  "(0::real) \<le> 60 \<and> (60::real) \<le> 100 \<and> (0::real) < 0.0125 \<and>
   (\<exists>r. simulate_system 60 0.0125 100 50 = Inr r \<and> length (v_total r) = 50 \<and>
         sorted (v_total r)) \<and>
   0 < conductivity (kelvin 60) \<and>
   eta_act (kelvin 60) 1 < eta_act (kelvin 60) 2 \<and>
   eta_ohm (0.0125 / conductivity (kelvin 60)) 1 < eta_ohm (0.0125 / conductivity (kelvin 60)) 2"
proof -
  have h: "(0::real) \<le> 60" "(60::real) \<le> 100" "(0::real) < 0.0125"
    by simp_all
  have "(0::real) < 1 \<and> (1::real) < 2"
    by simp
  with h voltage_monotone [OF h, of 100 50] show ?thesis
    by blast
qed

subsection \<open>The effect of the temperature\<close>

lemma V_rev_strict_antimono: "T1 < T2 \<Longrightarrow> V_rev (kelvin T2) < V_rev (kelvin T1)"
  by (simp add: V_rev_def kelvin_def)

lemma eta_act_temperature:
  assumes "T1 < T2" and "0.001 < i"
  shows "eta_act (kelvin T1) i < eta_act (kelvin T2) i"
proof -
  have "ln 1 < ln (i / 0.001)"
    using assms(2) by (subst ln_less_cancel_iff) simp_all
  then have l: "0 < ln (i / 0.001)"
    by simp
  have "R * kelvin T1 / (0.5 * 2 * F) < R * kelvin T2 / (0.5 * 2 * F)"
    using assms(1) by (simp add: R_def F_def kelvin_def)
  then show ?thesis
    unfolding eta_act_def using l by (rule mult_strict_right_mono)
qed

text \<open>
  Claim C2, as amended. For two temperatures \<open>T1 < T2\<close> of the valid range the reversible
  voltage at \<open>T2\<close> is strictly less than at \<open>T1\<close>, and the activation overpotential at
  \<open>T2\<close> is strictly greater than at \<open>T1\<close>, at every current density strictly above the
  reference exchange current density 0.001. The source keeps that reference fixed, so the
  temperature enters the overpotential through the factor \<^verbatim>\<open>R * T / F\<close> only.
\<close>

theorem temperature_effect:
  assumes "0 \<le> T1" and "T1 < T2" and "T2 \<le> 100"
  shows "V_rev (kelvin T2) < V_rev (kelvin T1) \<and>
         (\<forall>i. 0.001 < i \<longrightarrow> eta_act (kelvin T1) i < eta_act (kelvin T2) i)"
  using V_rev_strict_antimono [OF assms(2)] eta_act_temperature [OF assms(2)] by blast

theorem temperature_effect_witness:
  "(0::real) \<le> 20 \<and> (20::real) < 80 \<and> (80::real) \<le> 100 \<and> (0.001::real) < 2 \<and>
   V_rev (kelvin 80) < V_rev (kelvin 20) \<and> eta_act (kelvin 20) 2 < eta_act (kelvin 80) 2"
proof -
  have h: "(0::real) \<le> 20" "(20::real) < 80" "(80::real) \<le> 100"
    by simp_all
  have i: "(0.001::real) < 2"
    by simp
  from h i temperature_effect [OF h] show ?thesis
    by blast
qed

theorem temperature_effect_counterexample:
  "(0::real) \<le> 20 \<and> (20::real) < 80 \<and> (80::real) \<le> 100 \<and> (0.001::real) < 2 \<and>
   \<not> eta_act (kelvin 80) 2 < eta_act (kelvin 20) 2"
proof -
  have "eta_act (kelvin 20) 2 < eta_act (kelvin 80) 2"
    by (rule eta_act_temperature) simp_all
  then show ?thesis
    by simp
qed

subsection \<open>The example scenario\<close>

lemma V_rev_60: "V_rev (kelvin 60) = 1.1975"
  by (simp add: V_rev_def kelvin_def)

lemma eta_act_60_1: "eta_act (kelvin 60) 1 = (8.314 * 333.15 / 96485) * ln 1000"
  by (simp add: eta_act_def kelvin_def R_def F_def)

lemma eta_ohm_60_1:
  "eta_ohm (0.0125 / conductivity (kelvin 60)) 1 =
     0.0125 / ((0.005139 * (333.15 / 303) - 0.00326) * 10)"
  by (simp add: eta_ohm_def conductivity_def kelvin_def)

lemma one_not_on_grid: "1 \<notin> set (linspace 0.01 2.0 50)"
proof
  assume "1 \<in> set (linspace 0.01 2.0 50)"
  then obtain k :: nat where "real k * ((2.0 - 0.01) / real (50 - 1)) + 0.01 = 1"
    by (auto simp: linspace_def)
  then have "real k * 199 = 4851"
    by (simp add: field_simps)
  then have "real (k * 199) = real 4851"
    by simp
  then have "k * 199 = 4851"
    by (simp only: of_nat_eq_iff)
  then show False
    by presburger
qed

text \<open>
  Claim C8, as amended. In the example scenario (60 degrees Celsius, thickness 0.0125 cm,
  100 kW, 50 cells) the reversible voltage is \<open>1.229 - 0.0009 * (333.15 - 298.15) = 1.1975\<close>
  volts, and the total voltage at current density 1.0 is 1.1975 plus the activation and
  the ohmic overpotential at 1.0, which are \<open>(8.314 * 333.15 / 96485) * ln 1000\<close> and
  \<open>0.0125 / ((0.005139 * (333.15 / 303) - 0.00326) * 10)\<close>. The voltages the call returns
  are this sum at each point of the current-density grid.
\<close>

theorem example_scenario:
  "V_rev (kelvin 60) = 1.1975 \<and>
   v_at (kelvin 60) (0.0125 / conductivity (kelvin 60)) 1 =
     1.1975 + eta_act (kelvin 60) 1 + eta_ohm (0.0125 / conductivity (kelvin 60)) 1 \<and>
   eta_act (kelvin 60) 1 = (8.314 * 333.15 / 96485) * ln 1000 \<and>
   eta_ohm (0.0125 / conductivity (kelvin 60)) 1 =
     0.0125 / ((0.005139 * (333.15 / 303) - 0.00326) * 10) \<and>
   map_sum id v_total (simulate_system 60 0.0125 100 50) =
     Inr (map (\<lambda>i. 1.1975 + eta_act (kelvin 60) i +
                  eta_ohm (0.0125 / conductivity (kelvin 60)) i) (linspace 0.01 2.0 50))"
proof -
  have c: "conductivity (kelvin 60) \<noteq> 0"
    using conductivity_pos [of 60] by simp
  have v: "v_at (kelvin 60) r i = 1.1975 + eta_act (kelvin 60) i + eta_ohm r i" for r i
    by (simp only: v_at_def V_rev_60)
  have "v_at (kelvin 60) (0.0125 / conductivity (kelvin 60)) =
      (\<lambda>i. 1.1975 + eta_act (kelvin 60) i + eta_ohm (0.0125 / conductivity (kelvin 60)) i)"
    by (rule ext) (rule v)
  then have "map_sum id v_total (simulate_system 60 0.0125 100 50) =
     Inr (map (\<lambda>i. 1.1975 + eta_act (kelvin 60) i +
                  eta_ohm (0.0125 / conductivity (kelvin 60)) i) (linspace 0.01 2.0 50))"
    by (simp add: simulate_system_Inr [OF c])
  with V_rev_60 v eta_act_60_1 eta_ohm_60_1 show ?thesis
    by blast
qed

theorem example_scenario_counterexample:
  "V_rev (kelvin 60) = 1.1975 \<and> \<not> \<bar>V_rev (kelvin 60) - 1.1924\<bar> < 0.005"
  by (simp add: V_rev_60)

section \<open>The hour grid\<close>

text \<open>
  Claim C4, as amended. For all valid inputs the call returns, and the hour grid it returns
  has exactly 96 points, consecutive points are \<open>24 / 95\<close> apart, the first point is 0
  and the last point is 24: the grid covers the closed interval from 0 to 24, end point
  included (\<^verbatim>\<open>np.linspace(0, 24, 96)\<close>), not the half-open interval.
\<close>

theorem hours_grid:
  assumes "valid_inputs T_c thickness solar_kw cells"
  shows "\<exists>r. simulate_system T_c thickness solar_kw cells = Inr r \<and>
           length (hours r) = 96 \<and>
           (\<forall>k<95. hours r ! Suc k - hours r ! k = 24 / 95) \<and>
           hours r ! 0 = 0 \<and>
           hours r ! 95 = 24 \<and>
           (\<forall>x \<in> set (hours r). 0 \<le> x \<and> x \<le> 24)"
proof -
  note run = simulate_system_Inr [OF valid_inputs_conductivity [OF assms], of thickness solar_kw cells]
  have "\<forall>k<95. linspace 0 24 96 ! Suc k - linspace 0 24 96 ! k = 24 / 95"
    using linspace_step [of _ 96 0 24] by simp
  moreover have "linspace 0 24 96 ! 0 = 0"
    by (simp add: linspace_first)
  moreover have "linspace 0 24 96 ! 95 = 24"
    using linspace_last [of 96 0 24] by simp
  moreover have "\<forall>x \<in> set (linspace 0 24 96). 0 \<le> x \<and> x \<le> 24"
    using linspace_set_bounds [of 0 24 96] by simp
  ultimately show ?thesis
    unfolding run by (simp add: length_linspace)
qed

theorem hours_grid_witness:
  "valid_inputs 60 0.0125 100 50 \<and>
   (\<exists>r. simulate_system 60 0.0125 100 50 = Inr r \<and>
         length (hours r) = 96 \<and>
         (\<forall>k<95. hours r ! Suc k - hours r ! k = 24 / 95) \<and>
         hours r ! 0 = 0 \<and>
         hours r ! 95 = 24 \<and>
         (\<forall>x \<in> set (hours r). 0 \<le> x \<and> x \<le> 24))"
proof -
  have v: "valid_inputs 60 0.0125 100 50"
    by (simp add: valid_inputs_def)
  from v hours_grid [OF v] show ?thesis
    by simp
qed

theorem hours_grid_counterexample:
  "valid_inputs 60 0.0125 100 50 \<and>
   \<not> isl (simulate_system 60 0.0125 100 50) \<and>
   length (hours (projr (simulate_system 60 0.0125 100 50))) = 96 \<and>
   hours (projr (simulate_system 60 0.0125 100 50)) ! 95 = 24 \<and>
   \<not> hours (projr (simulate_system 60 0.0125 100 50)) ! 95 < 24"
proof -
  have v: "valid_inputs 60 0.0125 100 50"
    by (simp add: valid_inputs_def)
  have "linspace 0 24 96 ! 95 = 24"
    using linspace_last [of 96 0 24] by simp
  then show ?thesis
    using v by (simp add: simulate_system_Inr [OF valid_inputs_conductivity [OF v]] length_linspace)
qed

section \<open>The solar power profile\<close>

lemma solar_at_nonneg: "0 \<le> solar_at solar_kw h"
  by (simp add: solar_at_def)

lemma solar_at_le: "0 \<le> solar_kw \<Longrightarrow> solar_at solar_kw h \<le> solar_kw"
proof -
  assume s: "0 \<le> solar_kw"
  have "solar_kw * sin (pi * (h - 6) / 12) \<le> solar_kw * 1"
    using s by (intro mult_left_mono) simp_all
  with s show ?thesis
    by (simp add: solar_at_def)
qed

lemma solar_at_0: "solar_at solar_kw 0 = max 0 (- solar_kw)"
proof -
  have "pi * (0 - 6) / 12 = - (pi / 2)"
    by simp
  then show ?thesis
    by (simp add: solar_at_def)
qed

lemma solar_at_6: "solar_at solar_kw 6 = 0"
  by (simp add: solar_at_def)

lemma solar_at_12: "solar_at solar_kw 12 = max 0 solar_kw"
proof -
  have "pi * (12 - 6) / 12 = pi / 2"
    by simp
  then show ?thesis
    by (simp add: solar_at_def)
qed

lemma solar_at_18: "solar_at solar_kw 18 = 0"
  by (simp add: solar_at_def)

lemma solar_at_24: "solar_at solar_kw 24 = max 0 (- solar_kw)"
proof -
  have "pi * (24 - 6) / 12 = 3 / 2 * pi"
    by simp
  then have "sin (pi * (24 - 6) / 12) = - 1"
    by (simp only: sin_3over2_pi)
  then show ?thesis
    unfolding solar_at_def by simp
qed

lemma simulate_system_profile:
  assumes "simulate_system T_c thickness solar_kw cells = Inr r"
  shows "solar_profile r = map (solar_at solar_kw) (hours r)"
proof (cases "conductivity (kelvin T_c) = 0")
  case True
  with assms show ?thesis
    by (simp add: simulate_system_def Let_def)
next
  case False
  from assms show ?thesis
    unfolding simulate_system_Inr [OF False] by auto
qed

subsection \<open>The hours the profile is sampled at\<close>

text \<open>
  The 96 hours of the grid are the multiples of \<open>24 / 95\<close>. The hours 6, 12 and 18 are not
  among them: the peak of the half-sine lies between the samples 47 and 48.
\<close>

lemma hours_not_sampled:
  "6 \<notin> set (linspace 0 24 96)" "12 \<notin> set (linspace 0 24 96)" "18 \<notin> set (linspace 0 24 96)"
proof -
  have *: "real k * ((24 - 0) / real (96 - 1)) + 0 = real m \<Longrightarrow> k * 24 = m * 95" for k m :: nat
  proof -
    assume "real k * ((24 - 0) / real (96 - 1)) + 0 = real m"
    then have "real k * 24 = real m * 95"
      by (simp add: field_simps)
    then have "real (k * 24) = real (m * 95)"
      by simp
    then show ?thesis
      by (simp only: of_nat_eq_iff)
  qed
  show "6 \<notin> set (linspace 0 24 96)"
  proof
    assume "6 \<in> set (linspace 0 24 96)"
    then obtain k :: nat where "real k * ((24 - 0) / real (96 - 1)) + 0 = real 6"
      by (auto simp: linspace_def)
    from * [OF this] show False
      by presburger
  qed
  show "12 \<notin> set (linspace 0 24 96)"
  proof
    assume "12 \<in> set (linspace 0 24 96)"
    then obtain k :: nat where "real k * ((24 - 0) / real (96 - 1)) + 0 = real 12"
      by (auto simp: linspace_def)
    from * [OF this] show False
      by presburger
  qed
  show "18 \<notin> set (linspace 0 24 96)"
  proof
    assume "18 \<in> set (linspace 0 24 96)"
    then obtain k :: nat where "real k * ((24 - 0) / real (96 - 1)) + 0 = real 18"
      by (auto simp: linspace_def)
    from * [OF this] show False
      by presburger
  qed
qed

lemma sample_sin_less_1:
  assumes "k < 96"
  shows "sin (pi * (linspace 0 24 96 ! k - 6) / 12) < 1"
proof -
  have h: "linspace 0 24 96 ! k = real k * 24 / 95"
    using assms by (simp add: nth_linspace)
  have "sin (pi * (real k * 24 / 95 - 6) / 12) \<noteq> 1"
  proof
    assume "sin (pi * (real k * 24 / 95 - 6) / 12) = 1"
    then have "cos (pi / 2 - pi * (real k * 24 / 95 - 6) / 12) = 1"
      using sin_cos_eq [of "pi * (real k * 24 / 95 - 6) / 12"] by simp
    then obtain n :: int where "pi / 2 - pi * (real k * 24 / 95 - 6) / 12 = real_of_int n * 2 * pi"
      unfolding cos_one_2pi_int by blast
    moreover have "pi / 2 - pi * (real k * 24 / 95 - 6) / 12 = pi * (1 - real k * 2 / 95)"
      by (simp add: field_simps)
    ultimately have "pi * (1 - real k * 2 / 95) = pi * (real_of_int n * 2)"
      by (simp only: mult.assoc mult.commute [of _ pi])
    then have "1 - real k * 2 / 95 = real_of_int n * 2"
      by simp
    then have "real_of_int (95 - int k * 2) = real_of_int (n * 190)"
      by (simp add: field_simps)
    then have "95 - int k * 2 = n * 190"
      by (simp only: of_int_eq_iff)
    then show False
      by presburger
  qed
  moreover have "sin (pi * (real k * 24 / 95 - 6) / 12) \<le> 1"
    by simp
  ultimately show ?thesis
    unfolding h by (rule order.not_eq_order_implies_strict)
qed

lemma sample_below_capacity:
  assumes "0 < solar_kw" and "k < 96"
  shows "solar_at solar_kw (linspace 0 24 96 ! k) < solar_kw"
proof -
  have "solar_kw * sin (pi * (linspace 0 24 96 ! k - 6) / 12) < solar_kw * 1"
    using assms(1) sample_sin_less_1 [OF assms(2)] by (rule mult_strict_left_mono [rotated])
  with assms(1) show ?thesis
    by (simp add: solar_at_def)
qed

lemma pi_mult_mono: "a \<le> b \<Longrightarrow> pi * a \<le> pi * b"
  by (rule mult_left_mono) simp_all

lemma pi_mult_strict_mono: "a < b \<Longrightarrow> pi * a < pi * b"
  by simp

lemma hours_nth: "k < 96 \<Longrightarrow> linspace 0 24 96 ! k = real k * 24 / 95"
  by (simp add: nth_linspace)

lemma solar_at_window:
  assumes "0 \<le> solar_kw" and "0 \<le> h" and "h \<le> 24"
  shows "solar_at solar_kw h =
     (if 6 < h \<and> h < 18 then solar_kw * sin (pi * (h - 6) / 12) else 0)"
proof -
  have arg: "pi * (h - 6) / 12 = pi * ((h - 6) / 12)"
    by simp
  consider "h \<le> 6" | "6 < h \<and> h < 18" | "18 \<le> h"
    by linarith
  then show ?thesis
  proof cases
    case 1
    have "0 \<le> pi * ((6 - h) / 12)"
      using 1 by simp
    moreover have "pi * ((6 - h) / 12) \<le> pi * 1"
      using assms(2) by (intro pi_mult_mono) simp
    ultimately have "0 \<le> sin (pi * ((6 - h) / 12))"
      by (intro sin_ge_zero) simp_all
    moreover have "sin (pi * ((h - 6) / 12)) = - sin (pi * ((6 - h) / 12))"
    proof -
      have "pi * ((h - 6) / 12) = - (pi * ((6 - h) / 12))"
        by (simp add: field_simps)
      then show ?thesis
        by (simp only: sin_minus)
    qed
    ultimately have "sin (pi * ((h - 6) / 12)) \<le> 0"
      by simp
    then have "solar_kw * sin (pi * ((h - 6) / 12)) \<le> 0"
      using assms(1) by (simp add: mult_nonneg_nonpos)
    with 1 show ?thesis
      unfolding solar_at_def arg by simp
  next
    case 2
    have "0 < pi * ((h - 6) / 12)"
      using 2 by simp
    moreover have "pi * ((h - 6) / 12) < pi * 1"
      using 2 by (intro pi_mult_strict_mono) simp
    ultimately have "0 < sin (pi * ((h - 6) / 12))"
      by (intro sin_gt_zero) simp_all
    then have "0 \<le> solar_kw * sin (pi * ((h - 6) / 12))"
      using assms(1) by simp
    with 2 show ?thesis
      unfolding solar_at_def arg by simp
  next
    case 3
    have "pi * 1 \<le> pi * ((h - 6) / 12)"
      using 3 by (intro pi_mult_mono) simp
    moreover have "pi * ((h - 6) / 12) < pi * 2"
      using assms(3) by (intro pi_mult_strict_mono) simp
    ultimately have "sin (pi * ((h - 6) / 12)) \<le> 0"
      by (intro sin_le_zero) simp_all
    then have "solar_kw * sin (pi * ((h - 6) / 12)) \<le> 0"
      using assms(1) by (simp add: mult_nonneg_nonpos)
    with 3 show ?thesis
      unfolding solar_at_def arg by simp
  qed
qed

lemma solar_at_window_pos:
  assumes "0 < solar_kw" and "6 < h" and "h < 18"
  shows "0 < solar_at solar_kw h"
proof -
  have "0 < pi * ((h - 6) / 12)"
    using assms(2) by simp
  moreover have "pi * ((h - 6) / 12) < pi * 1"
    using assms(3) by (intro pi_mult_strict_mono) simp
  ultimately have "0 < sin (pi * ((h - 6) / 12))"
    by (intro sin_gt_zero) simp_all
  then have "0 < solar_kw * sin (pi * ((h - 6) / 12))"
    using assms(1) by simp
  then show ?thesis
    by (simp add: solar_at_def)
qed

lemma sample_arg: "pi * (real k * 24 / 95 - 6) / 12 = pi * ((4 * real k - 95) / 190)"
  by (simp add: field_simps)

lemma peak_sin_pos: "0 < sin (pi * 93 / 190)"
  by (rule sin_gt_zero) simp_all

lemma peak_sin_less_1: "sin (pi * 93 / 190) < 1"
proof -
  have "sin (pi * (linspace 0 24 96 ! 47 - 6) / 12) < 1"
    by (rule sample_sin_less_1) simp
  moreover have "pi * (linspace 0 24 96 ! 47 - 6) / 12 = pi * 93 / 190"
    by (simp add: hours_nth)
  ultimately show ?thesis
    by simp
qed

lemma sample_sin_le_peak:
  assumes "k < 96"
  shows "sin (pi * ((4 * real k - 95) / 190)) \<le> sin (pi * 93 / 190)"
proof (cases "k \<le> 47")
  case True
  have "pi * (- (1 / 2)) \<le> pi * ((4 * real k - 95) / 190)"
    by (intro pi_mult_mono) simp
  moreover have "pi * ((4 * real k - 95) / 190) \<le> pi * (93 / 190)"
    using True by (intro pi_mult_mono) simp
  moreover have "pi * (93 / 190) \<le> pi * (1 / 2)"
    by (intro pi_mult_mono) simp
  ultimately have "sin (pi * ((4 * real k - 95) / 190)) \<le> sin (pi * (93 / 190))"
    by (intro sin_monotone_2pi_le) simp_all
  then show ?thesis
    by simp
next
  case False
  then have k: "48 \<le> k"
    by simp
  have "pi * (- (1 / 2)) \<le> pi * ((285 - 4 * real k) / 190)"
    using assms by (intro pi_mult_mono) simp
  moreover have "pi * ((285 - 4 * real k) / 190) \<le> pi * (93 / 190)"
    using k by (intro pi_mult_mono) simp
  moreover have "pi * (93 / 190) \<le> pi * (1 / 2)"
    by (intro pi_mult_mono) simp
  ultimately have "sin (pi * ((285 - 4 * real k) / 190)) \<le> sin (pi * (93 / 190))"
    by (intro sin_monotone_2pi_le) simp_all
  moreover have "pi * ((285 - 4 * real k) / 190) = pi - pi * ((4 * real k - 95) / 190)"
    by (simp add: field_simps)
  ultimately show ?thesis
    by (simp only: sin_pi_minus) simp
qed

lemma sample_le_peak:
  assumes "0 \<le> solar_kw" and "k < 96"
  shows "solar_at solar_kw (linspace 0 24 96 ! k) \<le> solar_kw * sin (pi * 93 / 190)"
proof -
  have "solar_kw * sin (pi * ((4 * real k - 95) / 190)) \<le> solar_kw * sin (pi * 93 / 190)"
    using assms(1) sample_sin_le_peak [OF assms(2)] by (rule mult_left_mono [rotated])
  moreover have "0 \<le> solar_kw * sin (pi * 93 / 190)"
    using assms(1) peak_sin_pos by simp
  ultimately show ?thesis
    unfolding solar_at_def hours_nth [OF assms(2)] sample_arg by simp
qed

lemma sample_peak:
  "solar_at solar_kw (linspace 0 24 96 ! 47) = max 0 (solar_kw * sin (pi * 93 / 190))"
  "solar_at solar_kw (linspace 0 24 96 ! 48) = max 0 (solar_kw * sin (pi * 93 / 190))"
proof -
  have "pi * (linspace 0 24 96 ! 47 - 6) / 12 = pi * 93 / 190"
    by (simp add: hours_nth)
  then show "solar_at solar_kw (linspace 0 24 96 ! 47) = max 0 (solar_kw * sin (pi * 93 / 190))"
    unfolding solar_at_def by (simp only:)
  have "pi * (linspace 0 24 96 ! 48 - 6) / 12 = pi - pi * 93 / 190"
    by (simp add: hours_nth field_simps)
  then have "sin (pi * (linspace 0 24 96 ! 48 - 6) / 12) = sin (pi * 93 / 190)"
    by (simp only: sin_pi_minus)
  then show "solar_at solar_kw (linspace 0 24 96 ! 48) = max 0 (solar_kw * sin (pi * 93 / 190))"
    unfolding solar_at_def by (simp only:)
qed

text \<open>
  Claim C5, as amended. For all valid inputs (a solar capacity that is not negative) the
  call returns a solar profile of 96 values, one for each hour \<open>k * 24 / 95\<close> of the hour
  grid. The value at hour \<open>h\<close> is \<open>solar_kw * sin(pi * (h - 6) / 12)\<close> when \<open>h\<close> lies
  strictly between 6 and 18, where it is positive for a positive capacity, and 0 at every
  other hour; it is never negative. The first and the last value (hours 0 and 24) are 0.
  The hours 6, 12 and 18 are not sampled. The largest value is
  \<open>solar_kw * sin(pi * 93 / 190)\<close>, taken at the samples 47 and 48 on either side of hour
  12; the factor lies strictly between 0 and 1, so for a positive capacity every returned
  value is strictly below the capacity. The formula itself, at any real hour, is at least
  0, is 0 at the hours 0, 6, 18 and 24, and has its maximum at hour 12, where it equals
  the capacity.
\<close>

theorem solar_profile_sampled:
  assumes "valid_inputs T_c thickness solar_kw cells"
  shows "\<exists>r. simulate_system T_c thickness solar_kw cells = Inr r \<and>
           length (hours r) = 96 \<and> length (solar_profile r) = 96 \<and>
           (\<forall>k<96. hours r ! k = real k * 24 / 95 \<and>
              solar_profile r ! k =
                (if 6 < hours r ! k \<and> hours r ! k < 18
                 then solar_kw * sin (pi * (hours r ! k - 6) / 12) else 0) \<and>
              0 \<le> solar_profile r ! k \<and>
              solar_profile r ! k \<le> solar_kw * sin (pi * 93 / 190) \<and>
              (0 < solar_kw \<and> 6 < hours r ! k \<and> hours r ! k < 18 \<longrightarrow>
                 0 < solar_profile r ! k)) \<and>
           solar_profile r ! 0 = 0 \<and> solar_profile r ! 95 = 0 \<and>
           6 \<notin> set (hours r) \<and> 12 \<notin> set (hours r) \<and> 18 \<notin> set (hours r) \<and>
           solar_profile r ! 47 = solar_kw * sin (pi * 93 / 190) \<and>
           solar_profile r ! 48 = solar_kw * sin (pi * 93 / 190) \<and>
           0 < sin (pi * 93 / 190) \<and> sin (pi * 93 / 190) < 1 \<and>
           (\<forall>h. 0 \<le> solar_at solar_kw h \<and> solar_at solar_kw h \<le> solar_at solar_kw 12) \<and>
           solar_at solar_kw 0 = 0 \<and> solar_at solar_kw 6 = 0 \<and>
           solar_at solar_kw 18 = 0 \<and> solar_at solar_kw 24 = 0 \<and>
           solar_at solar_kw 12 = solar_kw"
proof -
  from assms have s: "0 \<le> solar_kw"
    by (simp add: valid_inputs_def)
  define r where "r = \<lparr>i_range = linspace 0.01 2.0 50,
      v_total = map (v_at (kelvin T_c) (thickness / conductivity (kelvin T_c)))
                  (linspace 0.01 2.0 50),
      hours = linspace 0 24 96,
      solar_profile = map (solar_at solar_kw) (linspace 0 24 96),
      h2_grams_hr = map (\<lambda>h. h2_at (total_current_at cells (solar_at solar_kw h)))
                      (linspace 0 24 96)\<rparr>"
  have run: "simulate_system T_c thickness solar_kw cells = Inr r"
    unfolding r_def by (rule simulate_system_Inr [OF valid_inputs_conductivity [OF assms]])
  have hs: "hours r = linspace 0 24 96"
    and sp: "solar_profile r = map (solar_at solar_kw) (linspace 0 24 96)"
    by (simp_all add: r_def)
  have len: "length (hours r) = 96" "length (solar_profile r) = 96"
    by (simp_all add: hs sp length_linspace)
  have nth: "solar_profile r ! k = solar_at solar_kw (hours r ! k)" if "k < 96" for k
    using that by (simp add: hs sp length_linspace)
  have each: "\<forall>k<96. hours r ! k = real k * 24 / 95 \<and>
      solar_profile r ! k =
        (if 6 < hours r ! k \<and> hours r ! k < 18
         then solar_kw * sin (pi * (hours r ! k - 6) / 12) else 0) \<and>
      0 \<le> solar_profile r ! k \<and>
      solar_profile r ! k \<le> solar_kw * sin (pi * 93 / 190) \<and>
      (0 < solar_kw \<and> 6 < hours r ! k \<and> hours r ! k < 18 \<longrightarrow> 0 < solar_profile r ! k)"
  proof (intro allI impI)
    fix k :: nat
    assume k: "k < 96"
    have b: "0 \<le> hours r ! k" "hours r ! k \<le> 24"
      using linspace_bounds [of 0 24 96 k] k by (simp_all add: hs)
    have "hours r ! k = real k * 24 / 95"
      unfolding hs by (rule hours_nth [OF k])
    moreover have "solar_at solar_kw (hours r ! k) \<le> solar_kw * sin (pi * 93 / 190)"
      unfolding hs by (rule sample_le_peak [OF s k])
    ultimately show "hours r ! k = real k * 24 / 95 \<and>
      solar_profile r ! k =
        (if 6 < hours r ! k \<and> hours r ! k < 18
         then solar_kw * sin (pi * (hours r ! k - 6) / 12) else 0) \<and>
      0 \<le> solar_profile r ! k \<and>
      solar_profile r ! k \<le> solar_kw * sin (pi * 93 / 190) \<and>
      (0 < solar_kw \<and> 6 < hours r ! k \<and> hours r ! k < 18 \<longrightarrow> 0 < solar_profile r ! k)"
      unfolding nth [OF k]
      using solar_at_window [OF s b] solar_at_nonneg [of solar_kw "hours r ! k"]
        solar_at_window_pos [of solar_kw "hours r ! k"]
      by blast
  qed
  have first: "solar_profile r ! 0 = 0"
    using s by (simp add: nth hs linspace_first solar_at_0)
  have last: "solar_profile r ! 95 = 0"
    using s linspace_last [of 96 0 24] by (simp add: nth hs solar_at_24)
  have "0 \<le> solar_kw * sin (pi * 93 / 190)"
    using s peak_sin_pos by simp
  then have m: "max 0 (solar_kw * sin (pi * 93 / 190)) = solar_kw * sin (pi * 93 / 190)"
    by (rule max_absorb2)
  have p47: "solar_profile r ! 47 = solar_kw * sin (pi * 93 / 190)"
    using nth [of 47] by (simp only: hs sample_peak m)
  have p48: "solar_profile r ! 48 = solar_kw * sin (pi * 93 / 190)"
    using nth [of 48] by (simp only: hs sample_peak m)
  have off: "6 \<notin> set (hours r)" "12 \<notin> set (hours r)" "18 \<notin> set (hours r)"
    unfolding hs by (rule hours_not_sampled)+
  have bounds: "\<forall>h. 0 \<le> solar_at solar_kw h \<and> solar_at solar_kw h \<le> solar_at solar_kw 12"
    using s by (simp add: solar_at_nonneg solar_at_12 solar_at_le)
  have zeros: "solar_at solar_kw 0 = 0" "solar_at solar_kw 6 = 0" "solar_at solar_kw 18 = 0"
    "solar_at solar_kw 24 = 0" "solar_at solar_kw 12 = solar_kw"
    using s by (simp_all add: solar_at_0 solar_at_6 solar_at_12 solar_at_18 solar_at_24)
  show ?thesis
    by (intro exI [of _ r] conjI)
      (fact run len each first last off p47 p48 peak_sin_pos peak_sin_less_1 bounds zeros)+
qed

theorem solar_profile_sampled_witness:
  "valid_inputs 60 0.0125 100 50 \<and>
   (\<exists>r. simulate_system 60 0.0125 100 50 = Inr r \<and>
      length (hours r) = 96 \<and> length (solar_profile r) = 96 \<and>
      solar_profile r ! 0 = 0 \<and> solar_profile r ! 95 = 0 \<and>
      6 \<notin> set (hours r) \<and> 12 \<notin> set (hours r) \<and> 18 \<notin> set (hours r) \<and>
      solar_profile r ! 47 = 100 * sin (pi * 93 / 190) \<and>
      solar_profile r ! 48 = 100 * sin (pi * 93 / 190)) \<and>
   0 < sin (pi * 93 / 190) \<and> sin (pi * 93 / 190) < 1 \<and>
   solar_at 100 6 = 0 \<and> solar_at 100 18 = 0 \<and> solar_at 100 12 = 100"
proof -
  have v: "valid_inputs 60 0.0125 100 50"
    by (simp add: valid_inputs_def)
  from v solar_profile_sampled [OF v] show ?thesis
    by blast
qed

theorem solar_profile_counterexample:
  "valid_inputs 60 0.0125 100 50 \<and>
   \<not> isl (simulate_system 60 0.0125 100 50) \<and>
   6 \<notin> set (hours (projr (simulate_system 60 0.0125 100 50))) \<and>
   12 \<notin> set (hours (projr (simulate_system 60 0.0125 100 50))) \<and>
   18 \<notin> set (hours (projr (simulate_system 60 0.0125 100 50))) \<and>
   100 \<notin> set (solar_profile (projr (simulate_system 60 0.0125 100 50)))"
proof -
  have v: "valid_inputs 60 0.0125 100 50"
    by (simp add: valid_inputs_def)
  have "100 \<notin> set (map (solar_at 100) (linspace 0 24 96))"
  proof
    assume "100 \<in> set (map (solar_at 100) (linspace 0 24 96))"
    then obtain k where "k < 96" and "solar_at 100 (linspace 0 24 96 ! k) = 100"
      by (auto simp: in_set_conv_nth length_linspace)
    with sample_below_capacity [of 100 k] show False
      by simp
  qed
  with v hours_not_sampled show ?thesis
    by (simp add: simulate_system_Inr [OF valid_inputs_conductivity [OF v]])
qed

section \<open>Stack current and hydrogen rate\<close>

lemma total_current_at_Fin:
  "cells \<noteq> 0 \<Longrightarrow> total_current_at cells p = Fin (p * 1000 / (v_op * real_of_int cells))"
  by (simp add: total_current_at_def v_op_def)

lemma total_current_at_zero:
  "total_current_at 0 p = (if p = 0 then NaN else if 0 < p then PosInf else NegInf)"
  by (simp add: total_current_at_def)

lemma h2_at_Fin: "h2_at (Fin c) = Fin (c * 2.016 / (2 * 96485) * 3600)"
  by (simp add: h2_at_def)

lemma h2_at_special: "h2_at NaN = NaN" "h2_at PosInf = PosInf" "h2_at NegInf = NegInf"
  by (simp_all add: h2_at_def)

lemma simulate_system_h2:
  assumes "simulate_system T_c thickness solar_kw cells = Inr r"
  shows "length (solar_profile r) = 96"
    and "length (h2_grams_hr r) = 96"
    and "k < 96 \<Longrightarrow> h2_grams_hr r ! k = h2_at (total_current_at cells (solar_profile r ! k))"
proof -
  have c: "conductivity (kelvin T_c) \<noteq> 0"
    using assms by (auto simp: simulate_system_def Let_def)
  from assms show "length (solar_profile r) = 96" and "length (h2_grams_hr r) = 96"
    unfolding simulate_system_Inr [OF c] by (auto simp: length_linspace)
  from assms show "h2_grams_hr r ! k = h2_at (total_current_at cells (solar_profile r ! k))"
    if "k < 96"
    using that unfolding simulate_system_Inr [OF c] by (auto simp: length_linspace)
qed

lemma simulate_system_returns:
  "0 \<le> T_c \<Longrightarrow> \<exists>r. simulate_system T_c thickness solar_kw cells = Inr r"
  using conductivity_pos [of T_c] simulate_system_Inr [of T_c thickness solar_kw cells]
  by auto

text \<open>
  Claim C6. For all valid inputs (at least one cell, a capacity that is not negative) the
  call returns, every hydrogen rate it returns is a finite number that is at least 0, and
  the rate is exactly 0 at every hour at which the solar power is 0.
\<close>

theorem h2_nonneg:
  assumes "valid_inputs T_c thickness solar_kw cells"
  shows "\<exists>r. simulate_system T_c thickness solar_kw cells = Inr r \<and>
           length (solar_profile r) = 96 \<and> length (h2_grams_hr r) = 96 \<and>
           (\<forall>k<96. \<exists>x. h2_grams_hr r ! k = Fin x \<and> 0 \<le> x \<and>
                        (solar_profile r ! k = 0 \<longrightarrow> x = 0))"
proof -
  from assms have T: "0 \<le> T_c" and cells: "1 \<le> cells"
    by (simp_all add: valid_inputs_def)
  from simulate_system_returns [OF T] obtain r
    where run: "simulate_system T_c thickness solar_kw cells = Inr r" ..
  have "\<exists>x. h2_grams_hr r ! k = Fin x \<and> 0 \<le> x \<and> (solar_profile r ! k = 0 \<longrightarrow> x = 0)"
    if "k < 96" for k
  proof -
    have p: "0 \<le> solar_profile r ! k"
      using that simulate_system_profile [OF run] simulate_system_h2(1) [OF run]
      by (simp add: solar_at_nonneg)
    have "h2_grams_hr r ! k =
        Fin (solar_profile r ! k * 1000 / (v_op * real_of_int cells) * 2.016 / (2 * 96485) * 3600)"
      using that cells by (simp add: simulate_system_h2(3) [OF run] total_current_at_Fin h2_at_Fin)
    moreover have "0 \<le> solar_profile r ! k * 1000 / (v_op * real_of_int cells) * 2.016 / (2 * 96485) * 3600"
      using p cells by (simp add: v_op_def)
    ultimately show ?thesis
      by simp
  qed
  with run simulate_system_h2(1,2) [OF run] show ?thesis
    by blast
qed

theorem h2_nonneg_witness:
  "valid_inputs 60 0.0125 100 50 \<and>
   (\<exists>r. simulate_system 60 0.0125 100 50 = Inr r \<and>
         length (solar_profile r) = 96 \<and> length (h2_grams_hr r) = 96 \<and>
         (\<forall>k<96. \<exists>x. h2_grams_hr r ! k = Fin x \<and> 0 \<le> x \<and>
                      (solar_profile r ! k = 0 \<longrightarrow> x = 0)))"
proof -
  have v: "valid_inputs 60 0.0125 100 50"
    by (simp add: valid_inputs_def)
  from v h2_nonneg [OF v] show ?thesis
    by simp
qed

text \<open>
  Claim C7. For every cell count \<open>n\<close> of at least 1, with temperature, thickness and
  capacity fixed, the call with \<open>2 * n\<close> cells has at every hour exactly half the stack
  current and exactly half the hydrogen rate of the call with \<open>n\<close> cells.
\<close>

theorem doubling_cells_halves:
  assumes "1 \<le> n" and "0 \<le> T_c" and "T_c \<le> 100"
  shows "\<exists>r1 r2. simulate_system T_c thickness solar_kw n = Inr r1 \<and>
           simulate_system T_c thickness solar_kw (2 * n) = Inr r2 \<and>
           solar_profile r2 = solar_profile r1 \<and>
           (\<forall>k<96. \<exists>c x.
              total_current_at n (solar_profile r1 ! k) = Fin c \<and>
              total_current_at (2 * n) (solar_profile r2 ! k) = Fin (c / 2) \<and>
              h2_grams_hr r1 ! k = Fin x \<and>
              h2_grams_hr r2 ! k = Fin (x / 2))"
proof -
  from simulate_system_returns [OF assms(2)] obtain r1 r2
    where run1: "simulate_system T_c thickness solar_kw n = Inr r1"
      and run2: "simulate_system T_c thickness solar_kw (2 * n) = Inr r2"
    by blast
  have hs: "hours r1 = linspace 0 24 96" "hours r2 = linspace 0 24 96"
    using run1 run2 conductivity_pos [OF assms(2)]
    by (auto simp: simulate_system_def Let_def)
  have sp: "solar_profile r2 = solar_profile r1"
    by (simp add: simulate_system_profile [OF run1] simulate_system_profile [OF run2] hs)
  have "\<exists>c x. total_current_at n (solar_profile r1 ! k) = Fin c \<and>
          total_current_at (2 * n) (solar_profile r2 ! k) = Fin (c / 2) \<and>
          h2_grams_hr r1 ! k = Fin x \<and> h2_grams_hr r2 ! k = Fin (x / 2)"
    if "k < 96" for k
    using that assms(1)
    by (simp add: simulate_system_h2(3) [OF run1] simulate_system_h2(3) [OF run2] sp
        total_current_at_Fin h2_at_Fin)
  with run1 run2 sp show ?thesis
    by blast
qed

theorem doubling_cells_halves_witness:
  "(1::int) \<le> 50 \<and> (0::real) \<le> 60 \<and> (60::real) \<le> 100 \<and>
   (\<exists>r1 r2. simulate_system 60 0.0125 100 50 = Inr r1 \<and>
           simulate_system 60 0.0125 100 (2 * 50) = Inr r2 \<and>
           solar_profile r2 = solar_profile r1 \<and>
           (\<forall>k<96. \<exists>c x.
              total_current_at 50 (solar_profile r1 ! k) = Fin c \<and>
              total_current_at (2 * 50) (solar_profile r2 ! k) = Fin (c / 2) \<and>
              h2_grams_hr r1 ! k = Fin x \<and>
              h2_grams_hr r2 ! k = Fin (x / 2)))"
proof -
  have h: "(1::int) \<le> 50" "(0::real) \<le> 60" "(60::real) \<le> 100"
    by simp_all
  from h doubling_cells_halves [OF h, of "0.0125" 100] show ?thesis
    by simp
qed

text \<open>
  Claim C3, as amended. A call with no cells raises no error. The divisor
  \<^verbatim>\<open>v_op * cells\<close> is zero and divides a numpy array, so the call returns as usual and
  the hydrogen rate is NaN at every hour at which the solar power is 0 and positive
  infinity at every other hour.
\<close>

theorem zero_cells_no_error:
  assumes "0 \<le> T_c" and "T_c \<le> 100"
  shows "\<exists>r. simulate_system T_c thickness solar_kw 0 = Inr r \<and>
           length (h2_grams_hr r) = 96 \<and>
           (\<forall>k<96. h2_grams_hr r ! k = (if solar_profile r ! k = 0 then NaN else PosInf))"
proof -
  from simulate_system_returns [OF assms(1)] obtain r
    where run: "simulate_system T_c thickness solar_kw 0 = Inr r" ..
  have "h2_grams_hr r ! k = (if solar_profile r ! k = 0 then NaN else PosInf)" if "k < 96" for k
  proof -
    have "0 \<le> solar_profile r ! k"
      using that simulate_system_profile [OF run] simulate_system_h2(1) [OF run]
      by (simp add: solar_at_nonneg)
    then show ?thesis
      using that
      by (simp add: simulate_system_h2(3) [OF run] total_current_at_zero h2_at_special)
  qed
  with run simulate_system_h2(2) [OF run] show ?thesis
    by blast
qed

theorem zero_cells_no_error_witness:
  "(0::real) \<le> 60 \<and> (60::real) \<le> 100 \<and>
   (\<exists>r. simulate_system 60 0.0125 100 0 = Inr r \<and>
         length (h2_grams_hr r) = 96 \<and>
         (\<forall>k<96. h2_grams_hr r ! k = (if solar_profile r ! k = 0 then NaN else PosInf)))"
proof -
  have h: "(0::real) \<le> 60" "(60::real) \<le> 100"
    by simp_all
  from h zero_cells_no_error [OF h, of "0.0125" 100] show ?thesis
    by simp
qed

lemma solar_at_noon_sample: "0 < solar_kw \<Longrightarrow> 0 < solar_at solar_kw (linspace 0 24 96 ! 48)"
proof -
  assume s: "0 < solar_kw"
  have h: "linspace 0 24 96 ! 48 = 1152 / 95"
    by (simp add: nth_linspace)
  have a: "pi * (1152 / 95 - 6) / 12 = pi * (97 / 190)"
    by simp
  have "0 < sin (pi * (97 / 190))"
    by (rule sin_gt_zero) simp_all
  with s show ?thesis
    unfolding h solar_at_def a by simp
qed

theorem zero_cells_counterexample:
  "\<not> isl (simulate_system 60 0.0125 100 0) \<and>
   h2_grams_hr (projr (simulate_system 60 0.0125 100 0)) ! 0 = NaN \<and>
   h2_grams_hr (projr (simulate_system 60 0.0125 100 0)) ! 48 = PosInf"
proof -
  have c: "conductivity (kelvin 60) \<noteq> 0"
    using conductivity_pos [of 60] by simp
  have z: "solar_at 100 (linspace 0 24 96 ! 0) = 0"
    by (simp add: linspace_first solar_at_0)
  have p: "0 < solar_at 100 (linspace 0 24 96 ! 48)"
    by (rule solar_at_noon_sample) simp
  show ?thesis
    using z p
    by (simp add: simulate_system_Inr [OF c] length_linspace total_current_at_zero h2_at_special)
qed

section \<open>The two halves of the result\<close>

lemma simulate_system_curve:
  "map_sum id (\<lambda>r. (i_range r, v_total r)) (simulate_system T_c thickness solar_kw cells) =
     (if conductivity (kelvin T_c) = 0 then Inl ZeroDivisionError
      else Inr (linspace 0.01 2.0 50,
             map (v_at (kelvin T_c) (thickness / conductivity (kelvin T_c)))
               (linspace 0.01 2.0 50)))"
  by (simp add: simulate_system_def Let_def)

text \<open>
  Claim C10. Two calls that agree on temperature and membrane thickness have the same
  outcome for the polarization curve, whatever their solar capacities and cell counts: the
  same error, or the same current-density grid and voltages. Two calls that agree on solar
  capacity and cell count, at any two temperatures of the valid range and any thicknesses,
  both return, with the same hour grid, solar profile and hydrogen profile.
\<close>

theorem halves_independent:
  assumes "0 \<le> Ta" and "Ta \<le> 100" and "0 \<le> Tb" and "Tb \<le> 100"
  shows "map_sum id (\<lambda>r. (i_range r, v_total r)) (simulate_system T_c thickness s1 c1) =
           map_sum id (\<lambda>r. (i_range r, v_total r)) (simulate_system T_c thickness s2 c2) \<and>
         (\<exists>ra rb. simulate_system Ta tha solar_kw cells = Inr ra \<and>
            simulate_system Tb thb solar_kw cells = Inr rb \<and>
            hours ra = hours rb \<and> solar_profile ra = solar_profile rb \<and>
            h2_grams_hr ra = h2_grams_hr rb)"
proof -
  have a: "conductivity (kelvin Ta) \<noteq> 0" and b: "conductivity (kelvin Tb) \<noteq> 0"
    using conductivity_pos [OF assms(1)] conductivity_pos [OF assms(3)] by simp_all
  show ?thesis
    by (simp add: simulate_system_curve simulate_system_Inr [OF a] simulate_system_Inr [OF b])
qed

theorem halves_independent_witness:
  "(0::real) \<le> 20 \<and> (20::real) \<le> 100 \<and> (0::real) \<le> 80 \<and> (80::real) \<le> 100 \<and>
   map_sum id (\<lambda>r. (i_range r, v_total r)) (simulate_system 60 0.0125 100 50) =
     map_sum id (\<lambda>r. (i_range r, v_total r)) (simulate_system 60 0.0125 0 7) \<and>
   (\<exists>ra rb. simulate_system 20 0.005 100 50 = Inr ra \<and>
      simulate_system 80 0.02 100 50 = Inr rb \<and>
      hours ra = hours rb \<and> solar_profile ra = solar_profile rb \<and>
      h2_grams_hr ra = h2_grams_hr rb)"
proof -
  have h: "(0::real) \<le> 20" "(20::real) \<le> 100" "(0::real) \<le> 80" "(80::real) \<le> 100"
    by simp_all
  from h halves_independent [OF h, of 60 "0.0125" 100 50 0 7 "0.005" 100 50 "0.02"]
  show ?thesis
    by blast
qed

end
